theory Spec2Isabelle
  imports Complex_Main
begin

section \<open>LS-SVR solver for the fractional Bratu equation: model of \<open>PINN/lssvr_bratu.py\<close>\<close>

text \<open>
  Conventions of the embedding.
  \<^item> A float64 is a \<open>real\<close>: rounding and overflow of finite results are not modelled.
    Division by zero and powers that numpy evaluates to \<open>inf\<close> or \<open>nan\<close> without raising are
    modelled (type \<open>fval\<close>), because the code goes on computing with them.
  \<^item> In the kernel entries the underflow of \<open>np.exp\<close> to \<open>0.0\<close> is modelled
    (\<open>np_exp\<close>), because it decides whether an entry is positive. In the residual
    \<open>np.exp(u[i])\<close> is the real exponential.
  \<^item> A one-dimensional array is a \<open>real list\<close>; a two-dimensional array is the list of its
    rows, all of one length (the shape \<open>(0, k)\<close> with \<open>k > 0\<close> has no representation).
  \<^item> A Python exception is \<open>Inl\<close> of the result. \<open>Inl NonFinite\<close> is not an exception: the
    code returns normally, and the returned array holds \<open>inf\<close> or \<open>nan\<close> entries, which
    are not real numbers. In \<open>solve_lssvr_bratu\<close> it says that \<open>D_alpha_K\<close> holds such
    entries when \<open>fsolve\<close> is called; what \<open>fsolve\<close> does with them is not modelled.
  \<^item> \<open>scipy.special.gamma\<close>, \<open>scipy.optimize.fsolve\<close> and \<open>time.time\<close> are library code:
    they are parameters (\<open>G\<close>, \<open>fsolve\<close>, and the two clock readings).
  \<^item> The order \<open>alpha\<close> is a Python float, as the defaults and every call in the file have it.
\<close>

datatype error = IndexError | ValueError | ZeroDivisionError | NonFinite

datatype fval = Fin real | Infty | NaN

type_synonym vec = "real list"
type_synonym matrix = "real list list"

subsection \<open>Powers\<close>

text \<open>
  The value of \<open>b ** e\<close> for a base \<open>b \<ge> 0\<close> where it is finite. Python and numpy both
  return \<open>1.0\<close> for an exponent \<open>0\<close>, also at the base \<open>0\<close>; HOL's \<open>0 powr 0\<close> is \<open>0\<close>.
\<close>

definition float_pow :: "real \<Rightarrow> real \<Rightarrow> real" where
  "float_pow b e = (if e = 0 then 1 else b powr e)"

text \<open>
  \<open>k ** e\<close> for a Python int \<open>k \<ge> 0\<close> and a Python float \<open>e\<close>: the base \<open>0\<close> with a
  negative exponent raises ZeroDivisionError.
\<close>

definition py_pow :: "nat \<Rightarrow> real \<Rightarrow> error + real" where
  "py_pow k e = (if k = 0 \<and> e < 0 then Inl ZeroDivisionError else Inr (float_pow (real k) e))"

text \<open>
  \<open>h ** alpha\<close> for a float64 \<open>h\<close>: nothing is raised; \<open>0.0\<close> to a negative power is
  \<open>inf\<close>, a negative base to a fractional power is \<open>nan\<close>.
\<close>

definition np_pow :: "real \<Rightarrow> real \<Rightarrow> fval" where
  "np_pow b e =
     (if e = 0 \<or> 0 < b then Fin (float_pow b e)
      else if b = 0 then (if 0 < e then Fin 0 else Infty)
      else if e = of_int \<lfloor>e\<rfloor> then Fin (b powi \<lfloor>e\<rfloor>)
      else NaN)"

subsection \<open>L1 scheme for the Caputo derivative\<close>

text \<open>\<open>coeff = 1.0 / (gamma(2 - alpha) * (h ** alpha))\<close>, in float64 arithmetic.\<close>

definition caputo_coeff :: "(real \<Rightarrow> real) \<Rightarrow> real \<Rightarrow> real \<Rightarrow> fval" where
  "caputo_coeff G alpha h =
     (case np_pow h alpha of
        Fin p \<Rightarrow> (if G (2 - alpha) * p = 0 then Infty else Fin (1 / (G (2 - alpha) * p)))
      | Infty \<Rightarrow> (if G (2 - alpha) = 0 then NaN else Fin 0)
      | NaN \<Rightarrow> NaN)"

text \<open>
  The inner loop \<open>for j in range(i)\<close>, with the accumulator \<open>s\<close>. The reads \<open>u[j + 1]\<close>
  and \<open>u[j]\<close> are in range: \<open>j + 1 \<le> i < n\<close>.
\<close>

fun caputo_inner :: "vec \<Rightarrow> real \<Rightarrow> nat \<Rightarrow> nat list \<Rightarrow> real \<Rightarrow> error + real" where
  "caputo_inner u alpha i [] s = Inr s"
| "caputo_inner u alpha i (j # js) s =
     (case py_pow (i - j) (1 - alpha) of
        Inl e \<Rightarrow> Inl e
      | Inr a \<Rightarrow>
          (case py_pow (i - j - 1) (1 - alpha) of
             Inl e \<Rightarrow> Inl e
           | Inr b \<Rightarrow> caputo_inner u alpha i js (s + (u ! (j + 1) - u ! j) * (a - b))))"

text \<open>
  The outer loop \<open>for i in range(1, n)\<close>, with the array \<open>D_alpha_u\<close>. A \<open>coeff\<close> that is
  \<open>inf\<close> or \<open>nan\<close> makes the entry \<open>coeff * s\<close> non-finite.
\<close>

fun caputo_outer :: "vec \<Rightarrow> real \<Rightarrow> fval \<Rightarrow> nat list \<Rightarrow> vec \<Rightarrow> error + vec" where
  "caputo_outer u alpha coeff [] D = Inr D"
| "caputo_outer u alpha coeff (i # rest) D =
     (case caputo_inner u alpha i [0..<i] 0 of
        Inl e \<Rightarrow> Inl e
      | Inr s \<Rightarrow>
          (case coeff of
             Fin c \<Rightarrow> caputo_outer u alpha coeff rest (D[i := c * s])
           | _ \<Rightarrow> Inl NonFinite))"

text \<open>
  \<open>L1_caputo(u_on_grid, alpha, x_grid)\<close>. With \<open>x_grid = None\<close> the spacing is the Python
  float \<open>1.0 / (n - 1)\<close>, which raises for \<open>n = 1\<close>; with a grid (a float64 array, as the
  one caller passes it) \<open>x_grid[-1]\<close> raises on the empty grid and the division raises
  nothing. For \<open>n \<le> 1\<close> the loop body never runs, so \<open>h\<close> and \<open>coeff\<close> (which are
  \<open>nan\<close> or \<open>inf\<close> for \<open>n = 1\<close>) are never read and the zero array is returned.
\<close>

definition L1_caputo :: "(real \<Rightarrow> real) \<Rightarrow> vec \<Rightarrow> real \<Rightarrow> vec option \<Rightarrow> error + vec" where
  "L1_caputo G u alpha x_grid =
     (let n = length u in
      if x_grid = Some [] then Inl IndexError
      else if x_grid = None \<and> n = 1 then Inl ZeroDivisionError
      else if n \<le> 1 then Inr (replicate n 0)
      else
        (let h = (case x_grid of
                    None \<Rightarrow> 1 / (real n - 1)
                  | Some x \<Rightarrow> (last x - hd x) / (real n - 1));
             coeff = caputo_coeff G alpha h
         in caputo_outer u alpha coeff [1..<n] (replicate n 0)))"

subsection \<open>Kernel matrices\<close>

text \<open>
  \<open>np.exp(t)\<close> in float64 where the result is small: the least positive float64 is
  \<open>2^-1074\<close>, and a result of at most half of it is returned as \<open>0.0\<close>, with no exception
  (that is, for \<open>t \<le> - 1075 * ln 2\<close>, about \<open>- 745.13\<close>).
\<close>

definition np_exp :: "real \<Rightarrow> real" where
  "np_exp t = (if exp t \<le> 1 / 2 ^ 1075 then 0 else exp t)"

text \<open>\<open>np.exp(-gamma * (a[:, None] - b[None, :]) ** 2)\<close>: row \<open>j\<close>, column \<open>i\<close>.\<close>

definition kernel_matrix :: "vec \<Rightarrow> vec \<Rightarrow> real \<Rightarrow> matrix" where
  "kernel_matrix a b gamma = map (\<lambda>xj. map (\<lambda>xi. np_exp (- gamma * (xj - xi)\<^sup>2)) b) a"

definition column :: "matrix \<Rightarrow> nat \<Rightarrow> vec" where
  "column M i = map (\<lambda>row. row ! i) M"

definition set_column :: "matrix \<Rightarrow> nat \<Rightarrow> vec \<Rightarrow> matrix" where
  "set_column M i v = map2 (\<lambda>row y. row[i := y]) M v"

text \<open>The loop \<open>for i in range(N)\<close> of \<open>build_kernel_matrices\<close>, with the array \<open>D_alpha_K\<close>.\<close>

fun build_columns ::
  "(real \<Rightarrow> real) \<Rightarrow> vec \<Rightarrow> real \<Rightarrow> matrix \<Rightarrow> nat list \<Rightarrow> matrix \<Rightarrow> error + matrix" where
  "build_columns G x alpha K [] D = Inr D"
| "build_columns G x alpha K (i # rest) D =
     (case L1_caputo G (column K i) alpha (Some x) of
        Inl e \<Rightarrow> Inl e
      | Inr d \<Rightarrow> build_columns G x alpha K rest (set_column D i d))"

definition build_kernel_matrices ::
  "(real \<Rightarrow> real) \<Rightarrow> vec \<Rightarrow> real \<Rightarrow> real \<Rightarrow> error + (matrix \<times> matrix)" where
  "build_kernel_matrices G x alpha gamma =
     (let N = length x;
          K_mat = kernel_matrix x x gamma
      in case build_columns G x alpha K_mat [0..<N] (replicate N (replicate N 0)) of
           Inl e \<Rightarrow> Inl e
         | Inr D_alpha_K \<Rightarrow> Inr (K_mat, D_alpha_K))"

subsection \<open>Collocation residual\<close>

definition dot :: "vec \<Rightarrow> vec \<Rightarrow> real" where
  "dot r v = sum_list (map2 (*) r v)"

definition ncols :: "matrix \<Rightarrow> nat" where
  "ncols M = (case M of [] \<Rightarrow> 0 | r # _ \<Rightarrow> length r)"

text \<open>\<open>M @ v\<close> for an array \<open>M\<close> with \<open>k\<close> columns: numpy raises ValueError on a shape mismatch.\<close>

definition matvec :: "nat \<Rightarrow> matrix \<Rightarrow> vec \<Rightarrow> error + vec" where
  "matvec k M v =
     (if k \<noteq> length v \<or> (\<exists>r \<in> set M. length r \<noteq> k) then Inl ValueError
      else Inr (map (\<lambda>r. dot r v) M))"

text \<open>The loop \<open>for i in range(1, N - 1)\<close>; \<open>D_alpha_u[i]\<close> is read first.\<close>

fun residual_loop :: "vec \<Rightarrow> vec \<Rightarrow> real \<Rightarrow> nat list \<Rightarrow> vec \<Rightarrow> error + vec" where
  "residual_loop Du u lam [] F = Inr F"
| "residual_loop Du u lam (i # rest) F =
     (if length Du \<le> i \<or> length u \<le> i \<or> length F \<le> i then Inl IndexError
      else residual_loop Du u lam rest (F[i := Du ! i + lam * exp (u ! i)]))"

definition lssvr_bratu_residual :: "vec \<Rightarrow> matrix \<Rightarrow> matrix \<Rightarrow> real \<Rightarrow> int \<Rightarrow> error + vec" where
  "lssvr_bratu_residual alpha K_mat D_alpha_K lam N =
     (case matvec (ncols K_mat) K_mat alpha of
        Inl e \<Rightarrow> Inl e
      | Inr u \<Rightarrow>
          (case matvec (ncols D_alpha_K) D_alpha_K alpha of
             Inl e \<Rightarrow> Inl e
           | Inr D_alpha_u \<Rightarrow>
               if N < 0 then Inl ValueError
               else if u = [] \<or> N = 0 then Inl IndexError
               else if length u \<le> nat (N - 1) then Inl IndexError
               else
                 (let F0 = (replicate (nat N) 0)[0 := u ! 0];
                      F1 = F0[nat (N - 1) := u ! nat (N - 1)]
                  in residual_loop D_alpha_u u lam [1..<nat (N - 1)] F1)))"

subsection \<open>Predictor\<close>

text \<open>\<open>np.atleast_1d(x_eval)\<close> is the list \<open>x_eval\<close>; \<open>K_eval\<close> has \<open>len(x_colloc)\<close> columns.\<close>

definition lssvr_predict :: "vec \<Rightarrow> vec \<Rightarrow> vec \<Rightarrow> real \<Rightarrow> error + vec" where
  "lssvr_predict x_eval x_colloc alpha gamma =
     matvec (length x_colloc) (kernel_matrix x_eval x_colloc gamma) alpha"

subsection \<open>Solve entry point\<close>

text \<open>\<open>np.linspace(0, 1, N)\<close>: a negative \<open>N\<close> raises ValueError; \<open>N = 1\<close> gives \<open>[0.]\<close>.\<close>

definition linspace01 :: "int \<Rightarrow> error + vec" where
  "linspace01 N =
     (if N < 0 then Inl ValueError
      else if N = 1 then Inr [0]
      else Inr (map (\<lambda>k. real k / (real_of_int N - 1)) [0..<nat N]))"

fun digits :: "nat \<Rightarrow> string" where
  "digits n = (if n < 10 then [''0123456789'' ! n] else digits (n div 10) @ [''0123456789'' ! (n mod 10)])"

declare digits.simps [simp del]

definition str_int :: "int \<Rightarrow> string" where
  "str_int i = (if i < 0 then CHR ''-'' # digits (nat (- i)) else digits (nat i))"

definition warning :: "int \<Rightarrow> string \<Rightarrow> string" where
  "warning ier msg = ''Warning: fsolve did not converge (ier='' @ str_int ier @ ''): '' @ msg"

record solve_result =
  x_grid :: vec
  alpha :: vec
  K_mat :: matrix
  D_alpha_K :: matrix
  wall_time :: real

type_synonym solver = "(vec \<Rightarrow> error + vec) \<Rightarrow> vec \<Rightarrow> error + (vec \<times> int \<times> string)"

text \<open>
  \<open>solve_lssvr_bratu\<close>. \<open>fsolve F x0\<close> stands for \<open>fsolve(F, x0, full_output=True)\<close> and
  returns the solution, \<open>ier\<close> and \<open>msg\<close> (the \<open>info\<close> dictionary is never read); \<open>t0\<close> and
  \<open>t1\<close> are the two readings of \<open>time()\<close>. The result is the returned tuple and the lines
  printed.
\<close>

definition solve_lssvr_bratu ::
  "(real \<Rightarrow> real) \<Rightarrow> solver \<Rightarrow> real \<times> real \<Rightarrow> real \<Rightarrow> real \<Rightarrow> int \<Rightarrow> real \<Rightarrow> vec option
     \<Rightarrow> error + (solve_result \<times> string list)" where
  "solve_lssvr_bratu G fsolve clock alpha_param lam N gamma grid =
     (case (case grid of None \<Rightarrow> linspace01 N | Some x \<Rightarrow> Inr x) of
        Inl e \<Rightarrow> Inl e
      | Inr x \<Rightarrow>
          (let N' = int (length x) in
           case build_kernel_matrices G x alpha_param gamma of
             Inl e \<Rightarrow> Inl e
           | Inr (K, D) \<Rightarrow>
               (case fsolve (\<lambda>a. lssvr_bratu_residual a K D lam N') (replicate (length x) 0) of
                  Inl e \<Rightarrow> Inl e
                | Inr (a, ier, msg) \<Rightarrow>
                    Inr (\<lparr>x_grid = x, alpha = a, K_mat = K, D_alpha_K = D,
                          wall_time = snd clock - fst clock\<rparr>,
                         if ier \<noteq> 1 then [warning ier msg] else []))))"

subsection \<open>Notions used to state the properties\<close>

text \<open>
  The L1 weight \<open>w(k) = k^(1 - alpha) - (k - 1)^(1 - alpha)\<close>, with the powers as the code
  computes them.
\<close>

definition l1_weight :: "real \<Rightarrow> nat \<Rightarrow> real" where
  "l1_weight al k = float_pow (real k) (1 - al) - float_pow (real (k - 1)) (1 - al)"

text \<open>
  The spacing that \<open>L1_caputo\<close> computes for an array of \<open>n\<close> samples.
\<close>

definition grid_spacing :: "nat \<Rightarrow> vec option \<Rightarrow> real" where
  "grid_spacing n xg = (case xg of None \<Rightarrow> 1 / (real n - 1) | Some x \<Rightarrow> (last x - hd x) / (real n - 1))"

text \<open>
  The uniform grid of \<open>n\<close> points that starts at \<open>x0\<close> with spacing \<open>h\<close>.
\<close>

definition uniform_grid :: "real \<Rightarrow> real \<Rightarrow> nat \<Rightarrow> vec" where
  "uniform_grid x0 h n = map (\<lambda>k. x0 + real k * h) [0..<n]"

text \<open>
  The L1 formula in the words of the specification: \<open>D[0] = 0\<close> and, for \<open>i \<ge> 1\<close>,
  \<open>D[i] = c * (\<Sum>j<i. (u[j + 1] - u[j]) * w(i - j))\<close> with \<open>c = 1 / (\<Gamma>(2 - alpha) * h^alpha)\<close>
  and \<open>w(k) = k^(1 - alpha) - (k - 1)^(1 - alpha)\<close>. The powers are real powers, with
  \<open>0^e = 0\<close>: so \<open>w(1) = 1\<close> for every order, and at \<open>alpha = 1\<close> the formula is the difference
  quotient \<open>(u[i] - u[i - 1]) / h\<close>, as the specification requires of that order.
\<close>

definition L1_spec :: "(real \<Rightarrow> real) \<Rightarrow> vec \<Rightarrow> real \<Rightarrow> real \<Rightarrow> nat \<Rightarrow> real" where
  "L1_spec G u al h i =
     (if i = 0 then 0
      else 1 / (G (2 - al) * h powr al) *
        (\<Sum>j<i. (u ! (j + 1) - u ! j) *
           (real (i - j) powr (1 - al) - real (i - j - 1) powr (1 - al))))"

text \<open>
  The outputs of a solve other than the wall time and the printed lines.
\<close>

definition solve_outputs ::
  "error + (solve_result \<times> string list) \<Rightarrow> error + (vec \<times> vec \<times> matrix \<times> matrix)" where
  "solve_outputs r = map_sum id (\<lambda>(s, out). (x_grid s, alpha s, K_mat s, D_alpha_K s)) r"

text \<open>
  The runs of a solve. The environment gives the two clock readings and the answers of
  \<open>fsolve\<close>: \<open>R F x0 r\<close> says that \<open>r\<close> is a possible answer to the call \<open>fsolve(F, x0)\<close>.
  Nothing is assumed of \<open>R\<close>; a solver that draws random numbers has several answers to one
  call. \<open>solve_run\<close> holds of every result that a run in such an environment can have.
\<close>

type_synonym solver_rel = "(vec \<Rightarrow> error + vec) \<Rightarrow> vec \<Rightarrow> error + (vec \<times> int \<times> string) \<Rightarrow> bool"

definition solve_run ::
  "(real \<Rightarrow> real) \<Rightarrow> solver_rel \<Rightarrow> real \<Rightarrow> real \<Rightarrow> int \<Rightarrow> real \<Rightarrow> vec option
     \<Rightarrow> error + (solve_result \<times> string list) \<Rightarrow> bool" where
  "solve_run G R alpha_param lam N gamma grid out =
     (\<exists>fsolve clock. (\<forall>F x0. R F x0 (fsolve F x0)) \<and>
        out = solve_lssvr_bratu G fsolve clock alpha_param lam N gamma grid)"

definition deterministic_solver :: "solver_rel \<Rightarrow> bool" where
  "deterministic_solver R = (\<forall>F x0 r r'. R F x0 r \<longrightarrow> R F x0 r' \<longrightarrow> r = r')"

definition solver_graph :: "solver \<Rightarrow> solver_rel" where
  "solver_graph fsolve F x0 r = (r = fsolve F x0)"

text \<open>
  Library stand-ins for the evaluations at concrete inputs. \<open>Gamma_tab\<close> holds the exact
  values \<open>\<Gamma>(1) = \<Gamma>(2) = 1\<close> and \<open>\<Gamma>(3/2) = sqrt pi / 2\<close>, and is evaluated at no
  other argument. \<open>fsolve_returning ier msg\<close> evaluates the residual at the initial guess, as
  \<open>fsolve\<close> does before it iterates, and returns the initial guess with the status \<open>ier\<close> and
  the message \<open>msg\<close>.
\<close>

definition Gamma_tab :: "real \<Rightarrow> real" where
  "Gamma_tab z = (if z = 3 / 2 then sqrt pi / 2 else 1)"

definition fsolve_returning :: "int \<Rightarrow> string \<Rightarrow> solver" where
  "fsolve_returning ier msg F x0 = (case F x0 of Inl e \<Rightarrow> Inl e | Inr y \<Rightarrow> Inr (x0, ier, msg))"

section \<open>The collocation residual\<close>

lemma residual_loop_ok:
  "\<forall>i \<in> set idxs. i < length Du \<and> i < length u \<and> i < length F \<Longrightarrow>
   \<exists>F'. residual_loop Du u lam idxs F = Inr F' \<and> length F' = length F \<and>
        (\<forall>i < length F. F' ! i = (if i \<in> set idxs then Du ! i + lam * exp (u ! i) else F ! i))"
proof (induction idxs arbitrary: F)
  case Nil
  then show ?case by simp
next
  case (Cons i rest)
  let ?F1 = "F[i := Du ! i + lam * exp (u ! i)]"
  have "\<forall>k \<in> set rest. k < length Du \<and> k < length u \<and> k < length ?F1"
    using Cons.prems by simp
  from Cons.IH [OF this] obtain F' where
    r: "residual_loop Du u lam rest ?F1 = Inr F'" and
    l: "length F' = length ?F1" and
    v: "\<forall>k < length ?F1. F' ! k = (if k \<in> set rest then Du ! k + lam * exp (u ! k) else ?F1 ! k)"
    by blast
  have "residual_loop Du u lam (i # rest) F = Inr F'"
    using Cons.prems r by simp
  moreover have "length F' = length F" using l by simp
  moreover have "\<forall>k < length F. F' ! k = (if k \<in> set (i # rest) then Du ! k + lam * exp (u ! k) else F ! k)"
    using v Cons.prems by (auto simp: nth_list_update)
  ultimately show ?case by blast
qed

lemma dot_sum: "length r = length v \<Longrightarrow> dot r v = (\<Sum>j<length v. r ! j * v ! j)"
proof -
  assume l: "length r = length v"
  have "map2 (*) r v = map (\<lambda>j. r ! j * v ! j) [0..<length v]"
    using l by (intro nth_equalityI) auto
  then show ?thesis
    by (simp add: dot_def interv_sum_list_conv_sum_set_nat atLeast0LessThan)
qed

lemma ncols_square: "0 < length M \<Longrightarrow> \<forall>r \<in> set M. length r = n \<Longrightarrow> ncols M = n"
  by (cases M) (auto simp: ncols_def)

lemma matvec_square:
  assumes "0 < length M" "\<forall>r \<in> set M. length r = length v"
  shows "matvec (ncols M) M v = Inr (map (\<lambda>r. \<Sum>j<length v. r ! j * v ! j) M)"
proof -
  have "ncols M = length v" using assms by (rule ncols_square)
  moreover have "map (\<lambda>r. dot r v) M = map (\<lambda>r. \<Sum>j<length v. r ! j * v ! j) M"
    using assms(2) by (intro map_cong) (auto simp: dot_sum)
  ultimately show ?thesis using assms(2) by (simp add: matvec_def)
qed

text \<open>
  Claim C1. For a coefficient vector of length \<open>N \<ge> 2\<close> and \<open>N\<close>-by-\<open>N\<close> matrices \<open>K\<close> and
  \<open>D\<close>, the residual is returned (nothing is raised), has length \<open>N\<close>, its first and last
  entries are the first and last entries of \<open>K a\<close>, and an interior entry \<open>i\<close> is
  \<open>(D a)[i] + lam * exp ((K a)[i])\<close>.
\<close>

theorem residual_entries:
  assumes N: "2 \<le> N" and a: "length a = N"
    and K: "length K = N" "\<forall>r \<in> set K. length r = N"
    and D: "length D = N" "\<forall>r \<in> set D. length r = N"
  shows "\<exists>F. lssvr_bratu_residual a K D lam (int N) = Inr F \<and> length F = N \<and>
           F ! 0 = (\<Sum>j<N. K ! 0 ! j * a ! j) \<and>
           F ! (N - 1) = (\<Sum>j<N. K ! (N - 1) ! j * a ! j) \<and>
           (\<forall>i. 1 \<le> i \<and> i \<le> N - 2 \<longrightarrow>
              F ! i = (\<Sum>j<N. D ! i ! j * a ! j) + lam * exp (\<Sum>j<N. K ! i ! j * a ! j))"
proof -
  define u where "u = map (\<lambda>r. \<Sum>j<N. r ! j * a ! j) K"
  define Du where "Du = map (\<lambda>r. \<Sum>j<N. r ! j * a ! j) D"
  have mu: "matvec (ncols K) K a = Inr u"
    using matvec_square [of K a] N a K by (simp add: u_def)
  have mD: "matvec (ncols D) D a = Inr Du"
    using matvec_square [of D a] N a D by (simp add: Du_def)
  have lu: "length u = N" and lD: "length Du = N"
    using K D by (simp_all add: u_def Du_def)
  have ui: "u ! i = (\<Sum>j<N. K ! i ! j * a ! j)" if "i < N" for i
    using that K by (simp add: u_def)
  have Di: "Du ! i = (\<Sum>j<N. D ! i ! j * a ! j)" if "i < N" for i
    using that D by (simp add: Du_def)
  define F1 where "F1 = ((replicate N (0::real))[0 := u ! 0])[N - 1 := u ! (N - 1)]"
  have lF1: "length F1 = N" by (simp add: F1_def)
  have "\<forall>i \<in> set [1..<N - 1]. i < length Du \<and> i < length u \<and> i < length F1"
    using lu lD lF1 by auto
  from residual_loop_ok [OF this, of lam] obtain F where
    r: "residual_loop Du u lam [1..<N - 1] F1 = Inr F" and
    l: "length F = length F1" and
    v: "\<forall>i < length F1. F ! i = (if i \<in> set [1..<N - 1] then Du ! i + lam * exp (u ! i) else F1 ! i)"
    by blast
  have res: "lssvr_bratu_residual a K D lam (int N) = Inr F"
    using N mu mD lu r
    by (auto simp: lssvr_bratu_residual_def F1_def Let_def nat_diff_distrib')
  have f0: "F ! 0 = u ! 0"
    using v N lF1 by (auto simp: F1_def nth_list_update)
  have fN: "F ! (N - 1) = u ! (N - 1)"
    using v N lF1 by (auto simp: F1_def nth_list_update)
  have fi: "F ! i = Du ! i + lam * exp (u ! i)" if "1 \<le> i" "i \<le> N - 2" for i
    using v that N lF1 by auto
  show ?thesis
    using res l lF1 f0 fN fi ui Di N
    by (intro exI [of _ F]) auto
qed

text \<open>
  Claim C1 at \<open>N = 3\<close>, with \<open>K\<close> the identity matrix and \<open>lam = 5\<close>.
\<close>

theorem residual_entries_witness:
  "(2::nat) \<le> 3 \<and> length [1, 2, 3 :: real] = 3 \<and>
   length [[1, 0, 0], [0, 1, 0], [0, 0, 1 :: real]] = 3 \<and>
   map length [[1, 0, 0], [0, 1, 0], [0, 0, 1 :: real]] = [3, 3, 3] \<and>
   length [[0, 0, 0], [1, 1, 1], [0, 0, 0 :: real]] = 3 \<and>
   map length [[0, 0, 0], [1, 1, 1], [0, 0, 0 :: real]] = [3, 3, 3] \<and>
   lssvr_bratu_residual [1, 2, 3] [[1, 0, 0], [0, 1, 0], [0, 0, 1]]
     [[0, 0, 0], [1, 1, 1], [0, 0, 0]] 5 3 = Inr [1, 6 + 5 * exp 2, 3]"
proof -
  let ?K = "[[1, 0, 0], [0, 1, 0], [0, 0, 1 :: real]]"
  let ?D = "[[0, 0, 0], [1, 1, 1], [0, 0, 0 :: real]]"
  from residual_entries [of 3 "[1, 2, 3]" ?K ?D 5] obtain F where
    r: "lssvr_bratu_residual [1, 2, 3] ?K ?D 5 3 = Inr F" and l: "length F = 3" and
    f0: "F ! 0 = 1" and f2: "F ! 2 = 3" and f1: "F ! 1 = 6 + 5 * exp 2"
    by (auto simp: lessThan_nat_numeral lessThan_Suc)
  have "F = [1, 6 + 5 * exp 2, 3]"
    using l f0 f1 f2
    by (intro nth_equalityI) (auto simp: nth_Cons' less_Suc_eq numeral_3_eq_3 numeral_2_eq_2)
  then show ?thesis using r by simp
qed

section \<open>The L1 scheme\<close>

lemma py_pow_ok: "0 \<le> e \<Longrightarrow> py_pow k e = Inr (float_pow (real k) e)"
  by (simp add: py_pow_def)

lemma caputo_inner_sum:
  "al \<le> 1 \<Longrightarrow>
   caputo_inner u al i js s =
     Inr (s + (\<Sum>j\<leftarrow>js. (u ! (j + 1) - u ! j) * l1_weight al (i - j)))"
  by (induction js arbitrary: s) (simp_all add: py_pow_ok l1_weight_def add.assoc)

lemma caputo_inner_range:
  "al \<le> 1 \<Longrightarrow>
   caputo_inner u al i [0..<i] 0 = Inr (\<Sum>j<i. (u ! (j + 1) - u ! j) * l1_weight al (i - j))"
  by (simp add: caputo_inner_sum interv_sum_list_conv_sum_set_nat atLeast0LessThan)

lemma caputo_outer_ok:
  "al \<le> 1 \<Longrightarrow> \<forall>i \<in> set idxs. i < length D \<Longrightarrow>
   \<exists>D'. caputo_outer u al (Fin c) idxs D = Inr D' \<and> length D' = length D \<and>
        (\<forall>i < length D. D' ! i =
           (if i \<in> set idxs then c * (\<Sum>j<i. (u ! (j + 1) - u ! j) * l1_weight al (i - j))
            else D ! i))"
proof (induction idxs arbitrary: D)
  case Nil
  then show ?case by simp
next
  case (Cons i rest)
  let ?s = "\<Sum>j<i. (u ! (j + 1) - u ! j) * l1_weight al (i - j)"
  let ?D1 = "D[i := c * ?s]"
  have "\<forall>k \<in> set rest. k < length ?D1" using Cons.prems by simp
  from Cons.IH [OF Cons.prems(1) this] obtain D' where
    r: "caputo_outer u al (Fin c) rest ?D1 = Inr D'" and
    l: "length D' = length ?D1" and
    v: "\<forall>k < length ?D1. D' ! k =
           (if k \<in> set rest then c * (\<Sum>j<k. (u ! (j + 1) - u ! j) * l1_weight al (k - j))
            else ?D1 ! k)"
    by blast
  have "caputo_outer u al (Fin c) (i # rest) D = Inr D'"
    using r Cons.prems(1) by (simp add: caputo_inner_range)
  moreover have "length D' = length D" using l by simp
  moreover have "\<forall>k < length D. D' ! k =
           (if k \<in> set (i # rest) then c * (\<Sum>j<k. (u ! (j + 1) - u ! j) * l1_weight al (k - j))
            else D ! k)"
    using v Cons.prems(2) by (auto simp: nth_list_update)
  ultimately show ?case by blast
qed

lemma uniform_grid_spacing:
  assumes "2 \<le> n"
  shows "uniform_grid x0 h n \<noteq> []"
    and "(last (uniform_grid x0 h n) - hd (uniform_grid x0 h n)) / (real n - 1) = h"
proof -
  have ne: "[0..<n] \<noteq> []" using assms by simp
  show "uniform_grid x0 h n \<noteq> []" using ne by (simp add: uniform_grid_def)
  have "last (uniform_grid x0 h n) = x0 + real (n - 1) * h"
    using ne by (simp add: uniform_grid_def last_map)
  moreover have "hd (uniform_grid x0 h n) = x0"
    using ne by (simp add: uniform_grid_def hd_map upt_conv_Cons)
  ultimately show "(last (uniform_grid x0 h n) - hd (uniform_grid x0 h n)) / (real n - 1) = h"
    using assms by (simp add: of_nat_diff)
qed

lemma caputo_coeff_pos:
  "0 < h \<Longrightarrow> G (2 - al) \<noteq> 0 \<Longrightarrow>
   caputo_coeff G al h = Fin (1 / (G (2 - al) * h powr al))"
  by (auto simp: caputo_coeff_def np_pow_def float_pow_def)

lemma L1_caputo_unfold:
  assumes "2 \<le> length u" "xg \<noteq> Some []"
  shows "L1_caputo G u al xg =
           caputo_outer u al (caputo_coeff G al (grid_spacing (length u) xg)) [1..<length u]
             (replicate (length u) 0)"
  using assms by (auto simp: L1_caputo_def grid_spacing_def Let_def split: option.splits)

lemma L1_caputo_general:
  assumes n: "2 \<le> length u" and xg: "xg \<noteq> Some []" and al: "al \<le> 1"
    and h: "0 < grid_spacing (length u) xg" and G: "G (2 - al) \<noteq> 0"
  shows "\<exists>D. L1_caputo G u al xg = Inr D \<and> length D = length u \<and> D ! 0 = 0 \<and>
           (\<forall>i. 1 \<le> i \<and> i < length u \<longrightarrow>
              D ! i = 1 / (G (2 - al) * grid_spacing (length u) xg powr al) *
                (\<Sum>j<i. (u ! (j + 1) - u ! j) * l1_weight al (i - j)))"
proof -
  let ?c = "1 / (G (2 - al) * grid_spacing (length u) xg powr al)"
  have "\<forall>i \<in> set [1..<length u]. i < length (replicate (length u) (0::real))" by simp
  from caputo_outer_ok [OF al this, of u ?c] obtain D where
    r: "caputo_outer u al (Fin ?c) [1..<length u] (replicate (length u) 0) = Inr D" and
    l: "length D = length (replicate (length u) (0::real))" and
    v: "\<forall>i < length (replicate (length u) (0::real)). D ! i =
           (if i \<in> set [1..<length u]
            then ?c * (\<Sum>j<i. (u ! (j + 1) - u ! j) * l1_weight al (i - j))
            else replicate (length u) 0 ! i)"
    by blast
  have "L1_caputo G u al xg = Inr D"
    using r h G by (simp add: L1_caputo_unfold [OF n xg] caputo_coeff_pos)
  moreover have "length D = length u" using l by simp
  moreover have "D ! 0 = 0"
  proof -
    have "0 < length u" using n by linarith
    with v show ?thesis by force
  qed
  moreover have "\<forall>i. 1 \<le> i \<and> i < length u \<longrightarrow>
      D ! i = ?c * (\<Sum>j<i. (u ! (j + 1) - u ! j) * l1_weight al (i - j))"
    using v by simp
  ultimately show ?thesis by blast
qed

text \<open>
  What the code computes for every order up to \<open>1\<close>, with the powers of the code
  (\<open>float_pow\<close>, where \<open>0^0 = 1\<close>).
\<close>

lemma L1_caputo_formula:
  assumes n: "2 \<le> length u" and al: "al \<le> 1" and h: "0 < h"
    and grid: "xg = Some (uniform_grid x0 h (length u)) \<or> xg = None \<and> h = 1 / (real (length u) - 1)"
    and G: "G (2 - al) \<noteq> 0"
  shows "\<exists>D. L1_caputo G u al xg = Inr D \<and> length D = length u \<and> D ! 0 = 0 \<and>
           (\<forall>i. 1 \<le> i \<and> i < length u \<longrightarrow>
              D ! i = 1 / (G (2 - al) * h powr al) *
                (\<Sum>j<i. (u ! (j + 1) - u ! j) *
                   (float_pow (real (i - j)) (1 - al) - float_pow (real (i - j - 1)) (1 - al))))"
proof -
  have xg: "xg \<noteq> Some []" and sp: "grid_spacing (length u) xg = h"
    using grid uniform_grid_spacing [OF n, of x0 h] by (auto simp: grid_spacing_def)
  have "0 < grid_spacing (length u) xg" using h sp by simp
  from L1_caputo_general [of u xg al G, OF n xg al this G] show ?thesis
    by (simp add: l1_weight_def sp)
qed

text \<open>
  For an order in \<open>(0, 1)\<close> the code computes the formula of the specification at every index.
\<close>

lemma L1_caputo_below_one:
  assumes n: "2 \<le> length u" and al: "0 < al" "al < 1" and h: "0 < h"
    and grid: "xg = Some (uniform_grid x0 h (length u)) \<or> xg = None \<and> h = 1 / (real (length u) - 1)"
    and G: "G (2 - al) \<noteq> 0"
  shows "\<exists>D. L1_caputo G u al xg = Inr D \<and> length D = length u \<and>
           (\<forall>i < length u. D ! i = L1_spec G u al h i)"
proof -
  have le: "al \<le> 1" using al by simp
  from L1_caputo_formula [where G = G and u = u and al = al and h = h and xg = xg and ?x0.0 = x0,
      OF n le h grid G] obtain D where
    r: "L1_caputo G u al xg = Inr D" and l: "length D = length u" and z: "D ! 0 = 0" and
    v: "\<forall>i. 1 \<le> i \<and> i < length u \<longrightarrow>
          D ! i = 1 / (G (2 - al) * h powr al) *
            (\<Sum>j<i. (u ! (j + 1) - u ! j) *
               (float_pow (real (i - j)) (1 - al) - float_pow (real (i - j - 1)) (1 - al)))"
    by blast
  have p: "float_pow b (1 - al) = b powr (1 - al)" for b
    using al by (simp add: float_pow_def)
  have "D ! i = L1_spec G u al h i" if "i < length u" for i
  proof (cases "i = 0")
    case True
    then show ?thesis using z by (simp add: L1_spec_def)
  next
    case False
    then have "1 \<le> i \<and> i < length u" using that by simp
    with v show ?thesis using False by (simp add: L1_spec_def p)
  qed
  with r l show ?thesis by blast
qed

text \<open>
  Claim C2. The claim holds of the code for the orders below \<open>1\<close> (\<open>L1_caputo_below_one\<close>) and
  fails at \<open>alpha = 1\<close>, which it includes. For \<open>u = [0, 1, 4]\<close> with no grid (\<open>h = 1/2\<close>,
  \<open>c = 2\<close>) the formula gives \<open>D = [0, 2, 6]\<close>, the difference quotients; the code returns
  \<open>[0, 0, 0]\<close>, because it evaluates \<open>0 ** 0.0\<close> to \<open>1.0\<close> and so \<open>w(1)\<close> to \<open>0\<close>.
\<close>

theorem L1_caputo_formula_order_one_example:
  "L1_caputo Gamma_tab [0, 1, 4] 1 None = Inr [0, 0, 0] \<and>
   map (L1_spec Gamma_tab [0, 1, 4] 1 (1 / 2)) [0, 1, 2] = [0, 2, 6]"
  by (simp add: L1_caputo_def Let_def caputo_coeff_def np_pow_def float_pow_def Gamma_tab_def
      py_pow_def upt_conv_Cons L1_spec_def lessThan_nat_numeral lessThan_Suc)

text \<open>
  Claim C8. On a uniform grid of \<open>N \<ge> 2\<close> points and for an order in \<open>(0, 1]\<close>, the operator
  maps the zero sequence to the zero sequence of the same length.
\<close>

theorem L1_caputo_zero_sequence:
  assumes n: "2 \<le> n" and al: "0 < al" "al \<le> 1" and h: "0 < h"
    and grid: "xg = Some (uniform_grid x0 h n) \<or> xg = None \<and> h = 1 / (real n - 1)"
    and G: "G (2 - al) \<noteq> 0"
  shows "L1_caputo G (replicate n 0) al xg = Inr (replicate n 0)"
proof -
  let ?u = "replicate n (0::real)"
  have n': "2 \<le> length ?u" using n by simp
  have xg: "xg \<noteq> Some []" and sp: "grid_spacing (length ?u) xg = h"
    using grid uniform_grid_spacing [OF n, of x0 h] by (auto simp: grid_spacing_def)
  have hp: "0 < grid_spacing (length ?u) xg" using h sp by simp
  from L1_caputo_general [of ?u xg al G, OF n' xg al(2) hp G] obtain D where
    r: "L1_caputo G ?u al xg = Inr D" and l: "length D = length ?u" and z: "D ! 0 = 0" and
    v: "\<forall>i. 1 \<le> i \<and> i < length ?u \<longrightarrow>
          D ! i = 1 / (G (2 - al) * grid_spacing (length ?u) xg powr al) *
            (\<Sum>j<i. (?u ! (j + 1) - ?u ! j) * l1_weight al (i - j))"
    by blast
  have "D ! i = 0" if "i < n" for i
  proof (cases "i = 0")
    case True
    then show ?thesis using z by simp
  next
    case False
    have "(\<Sum>j<i. (?u ! (j + 1) - ?u ! j) * l1_weight al (i - j)) = 0"
      using that by (intro sum.neutral) simp
    then show ?thesis using v False that by simp
  qed
  then have "D = ?u" using l by (intro nth_equalityI) simp_all
  then show ?thesis using r by simp
qed

text \<open>
  Claim C8 on the grid \<open>[0, 1/2, 1]\<close> with \<open>alpha = 1/2\<close>.
\<close>

theorem L1_caputo_zero_sequence_witness:
  "(2::nat) \<le> 3 \<and> (0::real) < 1 / 2 \<and> (1 / 2 :: real) \<le> 1 \<and> (0::real) < 1 / 2 \<and>
   (Some [0, 1 / 2, 1] = Some (uniform_grid 0 (1 / 2) 3) \<or>
    Some [0, 1 / 2, 1] = (None :: vec option) \<and> (1 / 2 :: real) = 1 / (real (3::nat) - 1)) \<and>
   Gamma_tab (2 - 1 / 2) \<noteq> 0 \<and>
   L1_caputo Gamma_tab (replicate 3 0) (1 / 2) (Some [0, 1 / 2, 1]) = Inr (replicate 3 0)"
  using L1_caputo_zero_sequence [of 3 "1 / 2" "1 / 2" "Some [0, 1 / 2, 1]" 0 Gamma_tab]
  by (simp add: Gamma_tab_def uniform_grid_def upt_conv_Cons)

lemma caputo_inner_shift:
  "\<forall>j \<in> set js. j + 1 < length u \<Longrightarrow>
   caputo_inner (map (\<lambda>v. v + c) u) al i js s = caputo_inner u al i js s"
  by (induction js arbitrary: s) (auto split: sum.splits)

lemma caputo_outer_shift:
  "\<forall>i \<in> set idxs. i < length u \<Longrightarrow>
   caputo_outer (map (\<lambda>v. v + c) u) al cf idxs D = caputo_outer u al cf idxs D"
proof (induction idxs arbitrary: D)
  case Nil
  then show ?case by simp
next
  case (Cons i rest)
  have "\<forall>j \<in> set [0..<i]. j + 1 < length u" using Cons.prems by auto
  then have "caputo_inner (map (\<lambda>v. v + c) u) al i [0..<i] 0 = caputo_inner u al i [0..<i] 0"
    by (rule caputo_inner_shift)
  moreover have "caputo_outer (map (\<lambda>v. v + c) u) al cf rest D' = caputo_outer u al cf rest D'" for D'
    using Cons.IH Cons.prems by simp
  ultimately show ?case by (auto split: sum.splits fval.splits)
qed

text \<open>
  Claim C10. Adding a constant \<open>c\<close> to every sample does not change what the operator
  returns, for every sequence, order and grid (also where it raises).
\<close>

theorem L1_caputo_translation_invariant:
  "L1_caputo G (map (\<lambda>v. v + c) u) al xg = L1_caputo G u al xg"
proof -
  have "caputo_outer (map (\<lambda>v. v + c) u) al cf [1..<length u] D = caputo_outer u al cf [1..<length u] D"
    for cf D
    by (rule caputo_outer_shift) simp
  then show ?thesis by (simp add: L1_caputo_def Let_def)
qed

lemma l1_weight_one: "l1_weight 1 k = 0"
  by (simp add: l1_weight_def float_pow_def)

lemma L1_caputo_order_one:
  assumes n: "2 \<le> length u" and xg: "xg \<noteq> Some []"
    and h: "0 < grid_spacing (length u) xg" and G: "G 1 \<noteq> 0"
  shows "L1_caputo G u 1 xg = Inr (replicate (length u) 0)"
proof -
  have G': "G (2 - 1) \<noteq> 0" using G by simp
  from L1_caputo_general [of u xg 1 G, OF n xg _ h G'] obtain D where
    r: "L1_caputo G u 1 xg = Inr D" and l: "length D = length u" and z: "D ! 0 = 0" and
    v: "\<forall>i. 1 \<le> i \<and> i < length u \<longrightarrow>
          D ! i = 1 / (G (2 - 1) * grid_spacing (length u) xg powr 1) *
            (\<Sum>j<i. (u ! (j + 1) - u ! j) * l1_weight 1 (i - j))"
    by auto
  have "D ! i = 0" if "i < length u" for i
    using z v that by (cases "i = 0") (simp_all add: l1_weight_one)
  then have "D = replicate (length u) 0" using l by (intro nth_equalityI) simp_all
  then show ?thesis using r by simp
qed

text \<open>
  Claim C5. At \<open>alpha = 1\<close> the code takes the same path (\<open>\<Gamma>(1) = 1\<close>, the same weight
  formula), but every weight is \<open>k ** 0.0 - (k - 1) ** 0.0 = 1 - 1 = 0\<close>, since \<open>0 ** 0.0\<close> is
  \<open>1.0\<close>: the output is zero at every index (\<open>L1_caputo_order_one\<close>), not the difference
  quotient. For the samples \<open>u(x) = x\<close> on the grid \<open>[0, 1/2, 1]\<close> the difference quotient is
  \<open>1\<close> at both indices \<open>i \<ge> 1\<close>; the code returns \<open>[0, 0, 0]\<close>.
\<close>

theorem L1_caputo_order_one_example:
  "L1_caputo Gamma_tab [0, 1 / 2, 1] 1 (Some [0, 1 / 2, 1]) = Inr [0, 0, 0]"
  by (simp add: L1_caputo_def Let_def caputo_coeff_def np_pow_def float_pow_def Gamma_tab_def
      py_pow_def upt_conv_Cons)

section \<open>The kernel matrices and the predictor\<close>

lemma exp_600_bound: "exp (600::real) \<le> 2 ^ 960"
proof -
  have "exp (600::real) = exp 1 ^ 600"
    using exp_of_nat_mult [of 600 "1::real"] by simp
  also have "\<dots> \<le> (3::real) ^ 600"
    by (intro power_mono exp_le) simp
  also have "(3::real) ^ 600 = (3 ^ 5) ^ 120"
    by (simp only: power_mult [symmetric]) simp
  also have "\<dots> \<le> ((2::real) ^ 8) ^ 120"
    by (intro power_mono) simp_all
  also have "((2::real) ^ 8) ^ 120 = 2 ^ 960"
    by (simp only: power_mult [symmetric]) simp
  finally show ?thesis .
qed

lemma exp_1000_bound: "(2::real) ^ 1075 \<le> exp 1000"
proof -
  have "(2::real) ^ 1075 \<le> 2 ^ 1200"
    by (intro power_increasing) simp_all
  also have "(2::real) ^ 1200 \<le> ((7 / 6) ^ 5) ^ 1200"
    by (intro power_mono) (simp_all add: power_divide)
  also have "((7 / 6 :: real) ^ 5) ^ 1200 = (1 + 1000 / real (6000::nat)) ^ 6000"
    by (simp only: power_mult [symmetric]) simp
  also have "\<dots> \<le> exp 1000"
    by (intro exp_ge_one_plus_x_over_n_power_n) simp_all
  finally show ?thesis .
qed

lemma np_exp_zero: "np_exp 0 = 1"
  by (simp add: np_exp_def)

lemma np_exp_no_underflow:
  assumes "- 600 \<le> t"
  shows "np_exp t = exp t"
proof -
  have "(1::real) / 2 ^ 1075 < 1 / 2 ^ 960"
    by (intro divide_strict_left_mono power_strict_increasing) simp_all
  also have "(1::real) / 2 ^ 960 \<le> 1 / exp 600"
    using exp_600_bound by (intro divide_left_mono) simp_all
  also have "(1::real) / exp 600 = exp (- 600)"
    by (simp add: exp_minus inverse_eq_divide)
  also have "exp (- 600) \<le> exp t"
    using assms by simp
  finally show ?thesis by (simp add: np_exp_def)
qed

lemma np_exp_underflow:
  assumes "t \<le> - 1000"
  shows "np_exp t = 0"
proof -
  have "exp t \<le> exp (- 1000)"
    using assms by simp
  also have "exp (- 1000 :: real) = 1 / exp 1000"
    by (simp add: exp_minus inverse_eq_divide)
  also have "\<dots> \<le> 1 / 2 ^ 1075"
    using exp_1000_bound by (intro divide_left_mono) simp_all
  finally show ?thesis by (simp add: np_exp_def)
qed

lemma kernel_matrix_nth:
  "j < length a \<Longrightarrow> i < length b \<Longrightarrow>
   kernel_matrix a b gamma ! j ! i = np_exp (- gamma * (a ! j - b ! i)\<^sup>2)"
  by (simp add: kernel_matrix_def)

lemma kernel_matrix_shape:
  "length (kernel_matrix a b gamma) = length a"
  "\<forall>r \<in> set (kernel_matrix a b gamma). length r = length b"
  by (auto simp: kernel_matrix_def)

lemma build_kernel_matrices_K:
  "build_kernel_matrices G x al gamma = Inr (K, D) \<Longrightarrow> K = kernel_matrix x x gamma"
  by (auto simp: build_kernel_matrices_def Let_def split: sum.splits)

text \<open>
  Claim C6, as stated, fails. With \<open>gamma = 1000\<close> on the grid \<open>[0, 1]\<close> the off-diagonal
  entries are \<open>np.exp(-1000)\<close>, which is \<open>0.0\<close>: the matrix returned is the identity, and its
  entries are not all positive.
\<close>

theorem kernel_matrix_underflow_example:
  "build_kernel_matrices Gamma_tab [0, 1] (1 / 2) 1000 =
     Inr ([[1, 0], [0, 1]], [[0, 0], [- (2 / sqrt pi), 2 / sqrt pi]])"
  by (simp add: build_kernel_matrices_def Let_def kernel_matrix_def np_exp_zero np_exp_underflow
      column_def set_column_def L1_caputo_def caputo_coeff_def np_pow_def float_pow_def py_pow_def
      Gamma_tab_def upt_conv_Cons)

text \<open>
  Claim C6, amended. For every grid and every \<open>gamma > 0\<close>, the matrix \<open>K\<close> computed by the
  builder (the array \<open>K_mat\<close>, which is what the builder returns as its first component) has
  the shape \<open>N\<close> by \<open>N\<close>, is symmetric, has a unit diagonal and entries that are not negative.
  The entry \<open>K[j, i]\<close> is \<open>exp (- gamma * (x_j - x_i)^2)\<close> and positive, unless that value is
  at most \<open>2^-1075\<close>, where the entry is \<open>0\<close>; it is positive whenever
  \<open>gamma * (x_j - x_i)^2 \<le> 600\<close>.
\<close>

theorem kernel_matrix_properties:
  assumes g: "0 < gamma" and K: "K = kernel_matrix x x gamma"
    and j: "j < length x" and i: "i < length x"
  shows "(build_kernel_matrices G x al gamma = Inr (K', D) \<longrightarrow> K' = K) \<and>
         length K = length x \<and> length (K ! j) = length x \<and>
         K ! j ! j = 1 \<and> K ! i ! j = K ! j ! i \<and> 0 \<le> K ! j ! i \<and>
         K ! j ! i = (if exp (- gamma * (x ! j - x ! i)\<^sup>2) \<le> 1 / 2 ^ 1075 then 0
                      else exp (- gamma * (x ! j - x ! i)\<^sup>2)) \<and>
         (gamma * (x ! j - x ! i)\<^sup>2 \<le> 600 \<longrightarrow>
            K ! j ! i = exp (- gamma * (x ! j - x ! i)\<^sup>2) \<and> 0 < K ! j ! i)"
proof -
  have e: "K ! j ! i = np_exp (- gamma * (x ! j - x ! i)\<^sup>2)"
    using i j by (simp add: K kernel_matrix_nth)
  have e': "K ! i ! j = np_exp (- gamma * (x ! i - x ! j)\<^sup>2)"
    using i j by (simp add: K kernel_matrix_nth)
  have d: "K ! j ! j = 1"
    using j by (simp add: K kernel_matrix_nth np_exp_zero)
  have s: "K ! i ! j = K ! j ! i"
    by (simp add: e e' power2_commute [of "x ! i"])
  have n: "0 \<le> K ! j ! i"
    by (simp add: e np_exp_def)
  have l: "length K = length x" "length (K ! j) = length x"
    using j by (simp_all add: K kernel_matrix_def)
  have p: "K ! j ! i = exp (- gamma * (x ! j - x ! i)\<^sup>2) \<and> 0 < K ! j ! i"
    if "gamma * (x ! j - x ! i)\<^sup>2 \<le> 600"
  proof -
    have "- 600 \<le> - gamma * (x ! j - x ! i)\<^sup>2" using that by simp
    then show ?thesis by (simp add: e np_exp_no_underflow)
  qed
  have b: "K' = K" if "build_kernel_matrices G x al gamma = Inr (K', D)"
    using that K by (simp add: build_kernel_matrices_K)
  show ?thesis
    using b l d s n p e by (simp add: np_exp_def)
qed

text \<open>
  Claim C6, amended, on the grid \<open>[0, 1]\<close> with \<open>gamma = 10\<close>, at the entry \<open>K[0, 1]\<close>.
\<close>

theorem kernel_matrix_properties_witness:
  "(0::real) < 10 \<and> [[1, exp (- 10)], [exp (- 10), 1]] = kernel_matrix [0, 1] [0, 1] 10 \<and>
   (0::nat) < length [0, 1 :: real] \<and> (1::nat) < length [0, 1 :: real] \<and>
   build_kernel_matrices Gamma_tab [0, 1] (1 / 2) 10 =
     Inr ([[1, exp (- 10)], [exp (- 10), 1]],
          [[0, 0], [(2 * exp (- 10) - 2) / sqrt pi, (2 - 2 * exp (- 10)) / sqrt pi]]) \<and>
   (let K = [[1, exp (- 10)], [exp (- 10), 1 :: real]]; x = [0, 1 :: real] in
    length K = length x \<and> length (K ! 0) = length x \<and>
    K ! 0 ! 0 = 1 \<and> K ! 1 ! 0 = K ! 0 ! 1 \<and> 0 \<le> K ! 0 ! 1 \<and>
    K ! 0 ! 1 = (if exp (- 10 * (x ! 0 - x ! 1)\<^sup>2) \<le> 1 / 2 ^ 1075 then 0
                 else exp (- 10 * (x ! 0 - x ! 1)\<^sup>2)) \<and>
    10 * (x ! 0 - x ! 1)\<^sup>2 \<le> 600 \<and>
    K ! 0 ! 1 = exp (- 10 * (x ! 0 - x ! 1)\<^sup>2) \<and> 0 < K ! 0 ! 1)"
proof -
  have b: "build_kernel_matrices Gamma_tab [0, 1] (1 / 2) 10 =
     Inr ([[1, exp (- 10)], [exp (- 10), 1]],
          [[0, 0], [(2 * exp (- 10) - 2) / sqrt pi, (2 - 2 * exp (- 10)) / sqrt pi]])"
    by (simp add: build_kernel_matrices_def Let_def kernel_matrix_def np_exp_zero np_exp_no_underflow column_def set_column_def
      L1_caputo_def caputo_coeff_def np_pow_def float_pow_def py_pow_def Gamma_tab_def upt_conv_Cons)
  have g: "(0::real) < 10" by simp
  have K: "[[1, exp (- 10)], [exp (- 10), 1]] = kernel_matrix [0, 1] [0, 1] 10"
    by (simp add: kernel_matrix_def np_exp_zero np_exp_no_underflow)
  have i: "(0::nat) < length [0, 1 :: real]" "(1::nat) < length [0, 1 :: real]" by simp_all
  have c: "(10::real) * ([0, 1] ! 0 - [0, 1] ! 1)\<^sup>2 \<le> 600" by simp
  from kernel_matrix_properties [OF g K i(1) i(2)] c b g K i
  show ?thesis unfolding Let_def by blast
qed

lemma residual_loop_inv:
  "residual_loop Du u lam idxs F1 = Inr F \<Longrightarrow>
   length F = length F1 \<and> (\<forall>i < length F1. i \<notin> set idxs \<longrightarrow> F ! i = F1 ! i)"
proof (induction idxs arbitrary: F1)
  case Nil
  then show ?case by simp
next
  case (Cons i rest)
  let ?F2 = "F1[i := Du ! i + lam * exp (u ! i)]"
  have "residual_loop Du u lam rest ?F2 = Inr F"
    using Cons.prems by (simp split: if_splits)
  from Cons.IH [OF this] show ?case by (auto simp: nth_list_update)
qed

lemma residual_inv:
  assumes "lssvr_bratu_residual a K D lam N = Inr F"
  shows "\<exists>u. matvec (ncols K) K a = Inr u \<and> 1 \<le> N \<and> nat N \<le> length u \<and> length F = nat N \<and>
             F ! 0 = u ! 0 \<and> F ! (nat N - 1) = u ! (nat N - 1)"
proof -
  from assms obtain u Du where
    u: "matvec (ncols K) K a = Inr u" and
    N: "\<not> N < 0" "u \<noteq> []" "N \<noteq> 0" "\<not> length u \<le> nat (N - 1)" and
    r: "residual_loop Du u lam [1..<nat (N - 1)]
          ((replicate (nat N) 0)[0 := u ! 0, nat (N - 1) := u ! nat (N - 1)]) = Inr F"
    by (auto simp: lssvr_bratu_residual_def Let_def split: sum.splits if_splits)
  let ?F1 = "(replicate (nat N) (0::real))[0 := u ! 0, nat (N - 1) := u ! nat (N - 1)]"
  from residual_loop_inv [OF r] have
    l: "length F = length ?F1" and
    v: "\<forall>i < length ?F1. i \<notin> set [1..<nat (N - 1)] \<longrightarrow> F ! i = ?F1 ! i"
    by blast+
  have N1: "1 \<le> N" using N by simp
  have eq: "nat N - 1 = nat (N - 1)" using N1 by (simp add: nat_diff_distrib')
  have "F ! 0 = ?F1 ! 0" using v N1 by simp
  moreover have "?F1 ! 0 = u ! 0" using N1 by (cases "nat (N - 1) = 0") simp_all
  moreover have "F ! (nat N - 1) = ?F1 ! (nat N - 1)" using v N1 eq by simp
  moreover have "?F1 ! (nat N - 1) = u ! (nat N - 1)" using N1 eq by simp
  moreover have "nat N \<le> length u" using N by arith
  moreover have "length F = nat N" using l by simp
  ultimately show ?thesis using u N1 by (intro exI [of _ u]) simp
qed

text \<open>
  Claim C7. If the residual of the coefficients \<open>a\<close> is the zero vector, for \<open>K\<close> and \<open>D\<close>
  built from the grid \<open>x\<close> with the same \<open>gamma\<close>, then the predictor evaluated at the grid
  points returns \<open>0\<close> at the first and at the last grid point.
\<close>

theorem predictor_round_trip:
  assumes b: "build_kernel_matrices G x al gamma = Inr (K, D)"
    and r: "lssvr_bratu_residual a K D lam (int (length x)) = Inr F"
    and z: "\<forall>v \<in> set F. v = 0"
  shows "\<exists>p. lssvr_predict x x a gamma = Inr p \<and> length p = length x \<and>
             p ! 0 = 0 \<and> p ! (length x - 1) = 0"
proof -
  have K: "K = kernel_matrix x x gamma" using b by (rule build_kernel_matrices_K)
  from residual_inv [OF r] obtain u where
    u: "matvec (ncols K) K a = Inr u" and N: "1 \<le> length x" and
    l: "length F = length x" and f0: "F ! 0 = u ! 0" and
    fN: "F ! (length x - 1) = u ! (length x - 1)"
    by auto
  have "0 < length x" using N by linarith
  then have "ncols K = length x"
    by (intro ncols_square) (simp_all add: K kernel_matrix_shape)
  then have p: "lssvr_predict x x a gamma = Inr u"
    using u by (simp add: lssvr_predict_def K)
  have "length u = length K"
    using u by (auto simp: matvec_def split: if_splits)
  then have lu: "length u = length x"
    by (simp add: K kernel_matrix_shape)
  have "F ! k = 0" if "k < length x" for k
    using z l that by (simp add: all_set_conv_all_nth)
  then have "F ! 0 = 0" "F ! (length x - 1) = 0"
    using \<open>0 < length x\<close> by simp_all
  then show ?thesis using p lu f0 fN by simp
qed

text \<open>
  Claim C7 on the grid \<open>[0, 1/2, 1]\<close> with \<open>gamma = 4\<close> and \<open>alpha = 1/2\<close>, at a zero of the
  residual with coefficients that are not zero: \<open>a = [e^-1, - (1 + e^-4), e^-1]\<close> makes the two
  boundary rows zero, and for \<open>lam = - (D a)[1] / exp ((K a)[1])\<close> the interior row is zero too.
\<close>

theorem predictor_round_trip_witness:
  "(let K = [[1, exp (- 1), exp (- 4)], [exp (- 1), 1, exp (- 1)], [exp (- 4), exp (- 1), 1 :: real]];
        c = sqrt pi * (1 / 2) powr (1 / 2);
        D = [[0, 0, 0],
             [(2 * exp (- 1) - 2) / c, (2 - 2 * exp (- 1)) / c, (2 * exp (- 1) - 2 * exp (- 4)) / c],
             [(2 * ((exp (- 1) - 1) * (2 powr (1 / 2) - 1)) + (2 * exp (- 4) - 2 * exp (- 1))) / c,
              (2 * ((1 - exp (- 1)) * (2 powr (1 / 2) - 1)) + (2 * exp (- 1) - 2)) / c,
              (2 * ((exp (- 1) - exp (- 4)) * (2 powr (1 / 2) - 1)) + (2 - 2 * exp (- 1))) / c]];
        a = [exp (- 1), - (1 + exp (- 4)), exp (- 1)];
        lam = - (2 * (2 * exp (- 2) - 1 - exp (- 4)) / c) / exp (2 * exp (- 2) - 1 - exp (- 4))
    in build_kernel_matrices Gamma_tab [0, 1 / 2, 1] (1 / 2) 4 = Inr (K, D) \<and>
       lssvr_bratu_residual a K D lam (int (length [0, 1 / 2, 1 :: real])) = Inr [0, 0, 0] \<and>
       set [0, 0, 0 :: real] = {0} \<and>
       (\<exists>p. lssvr_predict [0, 1 / 2, 1] [0, 1 / 2, 1] a 4 = Inr p \<and>
            length p = length [0, 1 / 2, 1 :: real] \<and> p ! 0 = 0 \<and>
            p ! (length [0, 1 / 2, 1 :: real] - 1) = 0))"
proof -
  let ?c = "sqrt pi * (1 / 2) powr (1 / 2)"
  let ?K = "[[1, exp (- 1), exp (- 4)], [exp (- 1), 1, exp (- 1)], [exp (- 4), exp (- 1), 1 :: real]]"
  let ?D = "[[0, 0, 0],
             [(2 * exp (- 1) - 2) / ?c, (2 - 2 * exp (- 1)) / ?c, (2 * exp (- 1) - 2 * exp (- 4)) / ?c],
             [(2 * ((exp (- 1) - 1) * (2 powr (1 / 2) - 1)) + (2 * exp (- 4) - 2 * exp (- 1))) / ?c,
              (2 * ((1 - exp (- 1)) * (2 powr (1 / 2) - 1)) + (2 * exp (- 1) - 2)) / ?c,
              (2 * ((exp (- 1) - exp (- 4)) * (2 powr (1 / 2) - 1)) + (2 - 2 * exp (- 1))) / ?c]]"
  let ?a = "[exp (- 1), - (1 + exp (- 4)), exp (- 1 :: real)]"
  let ?lam = "- (2 * (2 * exp (- 2) - 1 - exp (- 4)) / ?c) / exp (2 * exp (- 2) - 1 - exp (- 4))"
  have b: "build_kernel_matrices Gamma_tab [0, 1 / 2, 1] (1 / 2) 4 = Inr (?K, ?D)"
    by (simp add: build_kernel_matrices_def Let_def kernel_matrix_def np_exp_zero np_exp_no_underflow
      column_def set_column_def L1_caputo_def caputo_coeff_def np_pow_def float_pow_def py_pow_def
      Gamma_tab_def upt_conv_Cons power2_eq_square)
  have p: "0 < ?c" by simp
  have e: "exp (- 1 :: real) * exp (- 1) = exp (- 2)" "exp (- 1 :: real) * exp (- 4) = exp (- 5)"
    "exp (- 4 :: real) * exp (- 1) = exp (- 5)"
    by (simp_all add: mult_exp_exp)
  have r: "lssvr_bratu_residual ?a ?K ?D ?lam (int (length [0, 1 / 2, 1 :: real])) = Inr [0, 0, 0]"
    using p
    apply (simp add: lssvr_bratu_residual_def matvec_def ncols_def dot_def numeral_3_eq_3 upt_conv_Cons
      algebra_simps e del: mult_exp_exp)
    apply (simp add: field_simps e del: mult_exp_exp)
    done
  have z: "\<forall>v \<in> set [0, 0, 0 :: real]. v = 0" by simp
  have s: "set [0, 0, 0 :: real] = {0}" by simp
  from predictor_round_trip [OF b r z] b r s show ?thesis unfolding Let_def by blast
qed

section \<open>The solve entry point\<close>

lemma build_single_point: "build_kernel_matrices G [x0] al gamma = Inr ([[1]], [[0]])"
  by (simp add: build_kernel_matrices_def Let_def kernel_matrix_def np_exp_zero np_exp_no_underflow column_def set_column_def
      L1_caputo_def)

lemma solve_outputs_clock:
  "solve_outputs (solve_lssvr_bratu G fs clock al lam N gamma grid) =
   solve_outputs (solve_lssvr_bratu G fs clock' al lam N gamma grid)"
  by (simp add: solve_lssvr_bratu_def solve_outputs_def Let_def split: sum.splits option.splits prod.splits)

text \<open>
  The runs do not assume a deterministic solver: with a solver that may answer either
  \<open>[0]\<close> or \<open>[1]\<close> to the same call, two runs on the same arguments return different
  coefficients.
\<close>

lemma solve_run_two_answers:
  "solve_run G (\<lambda>F x0 r. r = Inr ([0], 1, []) \<or> r = Inr ([1], 1, [])) al lam 1 gamma None
     (Inr (\<lparr>x_grid = [0], alpha = [0], K_mat = [[1]], D_alpha_K = [[0]], wall_time = 0\<rparr>, [])) \<and>
   solve_run G (\<lambda>F x0 r. r = Inr ([0], 1, []) \<or> r = Inr ([1], 1, [])) al lam 1 gamma None
     (Inr (\<lparr>x_grid = [0], alpha = [1], K_mat = [[1]], D_alpha_K = [[0]], wall_time = 0\<rparr>, []))"
proof -
  have "solve_lssvr_bratu G (\<lambda>F x0. Inr (a, 1, [])) (0, 0) al lam 1 gamma None =
      Inr (\<lparr>x_grid = [0], alpha = a, K_mat = [[1]], D_alpha_K = [[0]], wall_time = 0\<rparr>, [])" for a
    by (simp add: solve_lssvr_bratu_def linspace01_def build_single_point)
  from this [of "[0]"] this [of "[1]"] show ?thesis
    unfolding solve_run_def
    by (intro conjI exI [of _ "\<lambda>F x0. Inr ([0], 1, [])"] exI [of _ "\<lambda>F x0. Inr ([1], 1, [])"]
        exI [of _ "(0, 0)"]) simp_all
qed

text \<open>
  Claim C9. If \<open>fsolve\<close> is deterministic (one answer to one call), then any two runs of the
  solve on the same arguments, whatever the clock reads, return the same grid, coefficients,
  \<open>K\<close> and \<open>D\<close>, or raise the same exception.
\<close>

theorem solve_deterministic:
  assumes d: "deterministic_solver R"
    and r: "solve_run G R al lam N gamma grid out"
    and r': "solve_run G R al lam N gamma grid out'"
  shows "solve_outputs out = solve_outputs out'"
proof -
  from r obtain fs clock where
    fs: "\<forall>F x0. R F x0 (fs F x0)" and
    out: "out = solve_lssvr_bratu G fs clock al lam N gamma grid"
    unfolding solve_run_def by blast
  from r' obtain fs' clock' where
    fs': "\<forall>F x0. R F x0 (fs' F x0)" and
    out': "out' = solve_lssvr_bratu G fs' clock' al lam N gamma grid"
    unfolding solve_run_def by blast
  have "fs F x0 = fs' F x0" for F x0
    using d fs fs' unfolding deterministic_solver_def by blast
  then have "fs = fs'" by (intro ext)
  then show ?thesis
    unfolding out out' by (simp add: solve_outputs_clock [of G fs' clock al lam N gamma grid clock'])
qed

text \<open>
  Claim C9 for two runs on the default grid of two points, one with the clock readings
  \<open>0\<close> and \<open>1\<close>, one with \<open>5\<close> and \<open>9\<close>.
\<close>

theorem solve_deterministic_witness:
  "solve_run Gamma_tab (solver_graph (fsolve_returning 1 ''ok'')) (1 / 2) 1 2 10 None
     (Inr (\<lparr>x_grid = [0, 1], alpha = [0, 0], K_mat = [[1, exp (- 10)], [exp (- 10), 1]],
            D_alpha_K = [[0, 0], [(2 * exp (- 10) - 2) / sqrt pi, (2 - 2 * exp (- 10)) / sqrt pi]],
            wall_time = 1\<rparr>, [])) \<and>
   solve_run Gamma_tab (solver_graph (fsolve_returning 1 ''ok'')) (1 / 2) 1 2 10 None
     (Inr (\<lparr>x_grid = [0, 1], alpha = [0, 0], K_mat = [[1, exp (- 10)], [exp (- 10), 1]],
            D_alpha_K = [[0, 0], [(2 * exp (- 10) - 2) / sqrt pi, (2 - 2 * exp (- 10)) / sqrt pi]],
            wall_time = 4\<rparr>, [])) \<and>
   solve_outputs
     (Inr (\<lparr>x_grid = [0, 1], alpha = [0, 0], K_mat = [[1, exp (- 10)], [exp (- 10), 1]],
            D_alpha_K = [[0, 0], [(2 * exp (- 10) - 2) / sqrt pi, (2 - 2 * exp (- 10)) / sqrt pi]],
            wall_time = 1\<rparr>, [])) =
   solve_outputs
     (Inr (\<lparr>x_grid = [0, 1], alpha = [0, 0], K_mat = [[1, exp (- 10)], [exp (- 10), 1]],
            D_alpha_K = [[0, 0], [(2 * exp (- 10) - 2) / sqrt pi, (2 - 2 * exp (- 10)) / sqrt pi]],
            wall_time = 4\<rparr>, []))"
proof -
  let ?R = "solver_graph (fsolve_returning 1 ''ok'')"
  let ?out = "\<lambda>w. Inr (\<lparr>x_grid = [0, 1], alpha = [0, 0],
      K_mat = [[1, exp (- 10)], [exp (- 10), 1 :: real]],
      D_alpha_K = [[0, 0], [(2 * exp (- 10) - 2) / sqrt pi, (2 - 2 * exp (- 10)) / sqrt pi]],
      wall_time = w\<rparr>, []) :: error + (solve_result \<times> string list)"
  have d: "deterministic_solver ?R"
    by (simp add: deterministic_solver_def solver_graph_def)
  have e: "solve_lssvr_bratu Gamma_tab (fsolve_returning 1 ''ok'') (t0, t1) (1 / 2) 1 2 10 None =
      ?out (t1 - t0)" for t0 t1
    by (simp add: solve_lssvr_bratu_def linspace01_def fsolve_returning_def
      build_kernel_matrices_def Let_def kernel_matrix_def np_exp_zero np_exp_no_underflow column_def
      set_column_def L1_caputo_def caputo_coeff_def np_pow_def float_pow_def py_pow_def Gamma_tab_def
      upt_conv_Cons lssvr_bratu_residual_def matvec_def ncols_def dot_def)
  have r: "solve_run Gamma_tab ?R (1 / 2) 1 2 10 None (?out 1)"
    unfolding solve_run_def
    by (intro exI [of _ "fsolve_returning 1 ''ok''"] exI [of _ "(0, 1)"])
       (simp add: solver_graph_def e)
  have r': "solve_run Gamma_tab ?R (1 / 2) 1 2 10 None (?out 4)"
    unfolding solve_run_def
    by (intro exI [of _ "fsolve_returning 1 ''ok''"] exI [of _ "(5, 9)"])
       (simp add: solver_graph_def e)
  from solve_deterministic [OF d r r'] r r' show ?thesis by blast
qed

text \<open>
  Claim C3, as stated, fails. The returned tuple has five components and none is a status:
  with a solver that reports \<open>ier = 5\<close> the solve returns exactly what it returns with a
  solver that reports \<open>ier = 1\<close> and the same coefficients.
\<close>

theorem solve_no_failure_flag_example:
  "map_sum id fst (solve_lssvr_bratu Gamma_tab
       (fsolve_returning 5 ''The iteration is not making good progress'') (0, 2) (1 / 2) 1 2 10 None) =
   Inr \<lparr>x_grid = [0, 1], alpha = [0, 0], K_mat = [[1, exp (- 10)], [exp (- 10), 1]],
        D_alpha_K = [[0, 0], [(2 * exp (- 10) - 2) / sqrt pi, (2 - 2 * exp (- 10)) / sqrt pi]],
        wall_time = 2\<rparr> \<and>
   map_sum id fst (solve_lssvr_bratu Gamma_tab
       (fsolve_returning 5 ''The iteration is not making good progress'') (0, 2) (1 / 2) 1 2 10 None) =
   map_sum id fst (solve_lssvr_bratu Gamma_tab
       (fsolve_returning 1 ''The solution converged.'') (0, 2) (1 / 2) 1 2 10 None)"
  by (simp add: solve_lssvr_bratu_def linspace01_def fsolve_returning_def
      build_kernel_matrices_def Let_def kernel_matrix_def np_exp_zero np_exp_no_underflow column_def set_column_def
      L1_caputo_def caputo_coeff_def np_pow_def float_pow_def py_pow_def Gamma_tab_def upt_conv_Cons
      lssvr_bratu_residual_def matvec_def ncols_def dot_def)

text \<open>
  Claim C3, amended. When the solver reports \<open>ier \<noteq> 1\<close>, the solve returns the grid, the
  solver's coefficients, \<open>K\<close>, \<open>D\<close> and the wall time, and prints one warning line that holds
  \<open>ier\<close> and the solver's message; the status and the message are not returned.
\<close>

theorem solve_nonconvergence:
  assumes g: "grid = Some x \<or> grid = None \<and> linspace01 N = Inr x"
    and b: "build_kernel_matrices G x al gamma = Inr (K, D)"
    and f: "fs (\<lambda>a. lssvr_bratu_residual a K D lam (int (length x))) (replicate (length x) 0) =
              Inr (a, ier, msg)"
    and i: "ier \<noteq> 1"
  shows "solve_lssvr_bratu G fs (t0, t1) al lam N gamma grid =
           Inr (\<lparr>x_grid = x, alpha = a, K_mat = K, D_alpha_K = D, wall_time = t1 - t0\<rparr>,
                [warning ier msg])"
  using assms by (auto simp: solve_lssvr_bratu_def Let_def)

text \<open>
  Claim C3, amended, on the default grid of two points.
\<close>

theorem solve_nonconvergence_witness:
  "((None :: vec option) = Some [0, 1] \<or> (None :: vec option) = None \<and> linspace01 2 = Inr [0, 1]) \<and>
   build_kernel_matrices Gamma_tab [0, 1] (1 / 2) 10 =
     Inr ([[1, exp (- 10)], [exp (- 10), 1]],
          [[0, 0], [(2 * exp (- 10) - 2) / sqrt pi, (2 - 2 * exp (- 10)) / sqrt pi]]) \<and>
   fsolve_returning 5 ''no progress''
     (\<lambda>a. lssvr_bratu_residual a [[1, exp (- 10)], [exp (- 10), 1]]
        [[0, 0], [(2 * exp (- 10) - 2) / sqrt pi, (2 - 2 * exp (- 10)) / sqrt pi]] 1
        (int (length [0, 1 :: real])))
     (replicate (length [0, 1 :: real]) 0) = Inr ([0, 0], 5, ''no progress'') \<and>
   (5::int) \<noteq> 1 \<and>
   solve_lssvr_bratu Gamma_tab (fsolve_returning 5 ''no progress'') (0, 2) (1 / 2) 1 2 10 None =
     Inr (\<lparr>x_grid = [0, 1], alpha = [0, 0], K_mat = [[1, exp (- 10)], [exp (- 10), 1]],
           D_alpha_K = [[0, 0], [(2 * exp (- 10) - 2) / sqrt pi, (2 - 2 * exp (- 10)) / sqrt pi]],
           wall_time = 2 - 0\<rparr>,
          [warning 5 ''no progress''])"
proof -
  have g: "(None :: vec option) = Some [0, 1] \<or> (None :: vec option) = None \<and> linspace01 2 = Inr [0, 1]"
    by (simp add: linspace01_def upt_conv_Cons)
  have b: "build_kernel_matrices Gamma_tab [0, 1] (1 / 2) 10 =
     Inr ([[1, exp (- 10)], [exp (- 10), 1]],
          [[0, 0], [(2 * exp (- 10) - 2) / sqrt pi, (2 - 2 * exp (- 10)) / sqrt pi]])"
    by (simp add: build_kernel_matrices_def Let_def kernel_matrix_def np_exp_zero np_exp_no_underflow column_def set_column_def
      L1_caputo_def caputo_coeff_def np_pow_def float_pow_def py_pow_def Gamma_tab_def upt_conv_Cons)
  have f: "fsolve_returning 5 ''no progress''
     (\<lambda>a. lssvr_bratu_residual a [[1, exp (- 10)], [exp (- 10), 1]]
        [[0, 0], [(2 * exp (- 10) - 2) / sqrt pi, (2 - 2 * exp (- 10)) / sqrt pi]] 1
        (int (length [0, 1 :: real])))
     (replicate (length [0, 1 :: real]) 0) = Inr ([0, 0], 5, ''no progress'')"
    by (simp add: fsolve_returning_def lssvr_bratu_residual_def matvec_def ncols_def dot_def)
  have i: "(5::int) \<noteq> 1" by simp
  show ?thesis
    using g b f i
      solve_nonconvergence [where grid = None and x = "[0, 1]" and N = 2 and G = Gamma_tab
        and al = "1 / 2" and gamma = 10 and K = "[[1, exp (- 10)], [exp (- 10), 1]]"
        and D = "[[0, 0], [(2 * exp (- 10) - 2) / sqrt pi, (2 - 2 * exp (- 10)) / sqrt pi]]"
        and fs = "fsolve_returning 5 ''no progress''" and lam = 1 and a = "[0, 0]"
        and ier = 5 and msg = "''no progress''" and ?t0.0 = 0 and ?t1.0 = 2]
    by simp
qed

text \<open>
  Claim C4, as stated, fails. With \<open>N = 1\<close> nothing is rejected: the grid \<open>[0]\<close> and the
  matrices \<open>K = [[1]]\<close>, \<open>D = [[0]]\<close> are built, the solver is called and the solve returns.
\<close>

theorem solve_single_point_example:
  "solve_lssvr_bratu Gamma_tab (fsolve_returning 1 ''The solution converged.'') (0, 1)
       (1 / 2) 1 1 10 None =
   Inr (\<lparr>x_grid = [0], alpha = [0], K_mat = [[1]], D_alpha_K = [[0]], wall_time = 1\<rparr>, [])"
  by (simp add: solve_lssvr_bratu_def linspace01_def fsolve_returning_def
      build_kernel_matrices_def Let_def kernel_matrix_def np_exp_zero np_exp_no_underflow column_def set_column_def
      L1_caputo_def lssvr_bratu_residual_def matvec_def ncols_def dot_def)

lemma column_length: "length (column K i) = length K"
  by (simp add: column_def)

lemma build_columns_ok:
  assumes al: "al \<le> 1" and n: "2 \<le> length x" and h: "hd x < last x" and G: "G (2 - al) \<noteq> 0"
    and K: "length K = length x"
  shows "length D = length x \<Longrightarrow> \<exists>D'. build_columns G x al K idxs D = Inr D' \<and> length D' = length x"
proof (induction idxs arbitrary: D)
  case Nil
  then show ?case by simp
next
  case (Cons i rest)
  let ?u = "column K i"
  have n': "2 \<le> length ?u" using n K by (simp add: column_length)
  have xg: "Some x \<noteq> Some []" using n by auto
  have hp: "0 < grid_spacing (length ?u) (Some x)"
    using n h K by (simp add: grid_spacing_def column_length)
  from L1_caputo_general [of ?u "Some x" al G, OF n' xg al hp G] obtain d where
    d: "L1_caputo G ?u al (Some x) = Inr d" and ld: "length d = length ?u"
    by blast
  have "length (set_column D i d) = length x"
    using Cons.prems ld K by (simp add: set_column_def column_length)
  from Cons.IH [OF this] show ?case using d by simp
qed

lemma build_kernel_matrices_ok:
  assumes "al \<le> 1" "2 \<le> length x" "hd x < last x" "G (2 - al) \<noteq> 0"
  shows "\<exists>D. build_kernel_matrices G x al gamma = Inr (kernel_matrix x x gamma, D)"
proof -
  have "length (kernel_matrix x x gamma) = length x" by (simp add: kernel_matrix_shape)
  with assms have "\<exists>D'. build_columns G x al (kernel_matrix x x gamma) [0..<length x]
      (replicate (length x) (replicate (length x) 0)) = Inr D' \<and> length D' = length x"
    by (intro build_columns_ok) simp_all
  then show ?thesis by (auto simp: build_kernel_matrices_def Let_def)
qed

lemma linspace01_ends:
  assumes "2 \<le> N"
  shows "\<exists>x. linspace01 N = Inr x \<and> length x = nat N \<and> hd x = 0 \<and> last x = 1"
proof -
  let ?x = "map (\<lambda>k. real k / (real_of_int N - 1)) [0..<nat N]"
  have ne: "[0..<nat N] \<noteq> []" using assms by simp
  have "linspace01 N = Inr ?x" using assms by (simp add: linspace01_def)
  moreover have "length ?x = nat N" by simp
  moreover have "hd ?x = 0" using ne by (simp add: hd_map upt_conv_Cons)
  moreover have "last ?x = 1" using ne assms by (simp add: last_map of_nat_diff)
  ultimately show ?thesis by blast
qed

lemma L1_caputo_degenerate:
  assumes n: "2 \<le> length u" and x: "x \<noteq> []" "last x = hd x" and al: "0 < al" "al \<le> 1"
  shows "L1_caputo G u al (Some x) = Inl NonFinite"
proof -
  have c: "caputo_coeff G al 0 = Infty"
    using al by (simp add: caputo_coeff_def np_pow_def)
  have i: "[Suc 0..<length u] = Suc 0 # [Suc (Suc 0)..<length u]"
    by (rule upt_conv_Cons) (use n in linarith)
  show ?thesis
    using n x c al(2) by (simp add: L1_caputo_def Let_def i py_pow_ok)
qed

lemma build_degenerate:
  assumes n: "2 \<le> length x" and x: "last x = hd x" and al: "0 < al" "al \<le> 1"
  shows "build_kernel_matrices G x al gamma = Inl NonFinite"
proof -
  have ne: "x \<noteq> []" using n by auto
  have i: "[0..<length x] = 0 # [Suc 0..<length x]"
    by (rule upt_conv_Cons) (use n in linarith)
  have "2 \<le> length (column (kernel_matrix x x gamma) 0)"
    using n by (simp add: column_length kernel_matrix_shape)
  from L1_caputo_degenerate [OF this ne x al]
  show ?thesis by (simp add: build_kernel_matrices_def Let_def i)
qed

text \<open>
  Claim C4, amended. The solve entry point validates nothing. On the default grid a negative
  \<open>N\<close> raises the ValueError of the grid construction, before any matrix is built. \<open>N = 1\<close>
  is accepted: \<open>K = [[1]]\<close> and \<open>D = [[0]]\<close> are built and the solver's answer is returned.
  \<open>gamma\<close> is never inspected: for \<open>N \<ge> 2\<close> and an order in \<open>(0, 1]\<close> the matrices are built
  for every real \<open>gamma\<close>. A grid of at least two points whose first and last point coincide
  is not rejected either: for an order in \<open>(0, 1]\<close> the matrix \<open>D\<close> is built with entries that
  are \<open>inf\<close> or \<open>nan\<close>.
\<close>

theorem solve_no_validation:
  "(N < 0 \<longrightarrow> solve_lssvr_bratu G fs clock al lam N gamma None = Inl ValueError) \<and>
   (fs (\<lambda>a. lssvr_bratu_residual a [[1]] [[0]] lam 1) [0] = Inr (a, ier, msg) \<longrightarrow>
      solve_lssvr_bratu G fs (t0, t1) al lam 1 gamma None =
        Inr (\<lparr>x_grid = [0], alpha = a, K_mat = [[1]], D_alpha_K = [[0]], wall_time = t1 - t0\<rparr>,
             if ier \<noteq> 1 then [warning ier msg] else [])) \<and>
   (2 \<le> M \<and> 0 < al \<and> al \<le> 1 \<and> G (2 - al) \<noteq> 0 \<longrightarrow>
      (\<exists>x D. linspace01 M = Inr x \<and>
         build_kernel_matrices G x al gamma = Inr (kernel_matrix x x gamma, D))) \<and>
   (2 \<le> length y \<and> last y = hd y \<and> 0 < al \<and> al \<le> 1 \<longrightarrow>
      solve_lssvr_bratu G fs clock al lam N gamma (Some y) = Inl NonFinite)"
proof (intro conjI impI)
  assume "N < 0"
  then show "solve_lssvr_bratu G fs clock al lam N gamma None = Inl ValueError"
    by (simp add: solve_lssvr_bratu_def linspace01_def)
next
  assume "fs (\<lambda>a. lssvr_bratu_residual a [[1]] [[0]] lam 1) [0] = Inr (a, ier, msg)"
  then show "solve_lssvr_bratu G fs (t0, t1) al lam 1 gamma None =
        Inr (\<lparr>x_grid = [0], alpha = a, K_mat = [[1]], D_alpha_K = [[0]], wall_time = t1 - t0\<rparr>,
             if ier \<noteq> 1 then [warning ier msg] else [])"
    by (simp add: solve_lssvr_bratu_def linspace01_def build_single_point)
next
  assume a: "2 \<le> M \<and> 0 < al \<and> al \<le> 1 \<and> G (2 - al) \<noteq> 0"
  then obtain x where x: "linspace01 M = Inr x" "length x = nat M" "hd x = 0" "last x = 1"
    using linspace01_ends [of M] by blast
  have "2 \<le> nat M" using a by linarith
  then have "2 \<le> length x" "hd x < last x" using x by simp_all
  with a have "\<exists>D. build_kernel_matrices G x al gamma = Inr (kernel_matrix x x gamma, D)"
    by (intro build_kernel_matrices_ok) simp_all
  with x(1) show "\<exists>x D. linspace01 M = Inr x \<and>
         build_kernel_matrices G x al gamma = Inr (kernel_matrix x x gamma, D)"
    by blast
next
  assume "2 \<le> length y \<and> last y = hd y \<and> 0 < al \<and> al \<le> 1"
  then have "build_kernel_matrices G y al gamma = Inl NonFinite"
    by (intro build_degenerate) simp_all
  then show "solve_lssvr_bratu G fs clock al lam N gamma (Some y) = Inl NonFinite"
    by (simp add: solve_lssvr_bratu_def Let_def)
qed

text \<open>
  Claim C4, amended, at \<open>N = - 1\<close>, at \<open>N = 1\<close>, at \<open>N = 2\<close> with \<open>gamma = - 3\<close>, and on the
  grid \<open>[0, 0]\<close>.
\<close>

theorem solve_no_validation_witness:
  "(- 1 :: int) < 0 \<and>
   solve_lssvr_bratu Gamma_tab (fsolve_returning 1 ''ok'') (0, 1) (1 / 2) 1 (- 1) (- 3) None =
     Inl ValueError \<and>
   fsolve_returning 1 ''ok'' (\<lambda>a. lssvr_bratu_residual a [[1]] [[0]] 1 1) [0] = Inr ([0], 1, ''ok'') \<and>
   solve_lssvr_bratu Gamma_tab (fsolve_returning 1 ''ok'') (0, 1) (1 / 2) 1 1 (- 3) None =
     Inr (\<lparr>x_grid = [0], alpha = [0], K_mat = [[1]], D_alpha_K = [[0]], wall_time = 1 - 0\<rparr>, []) \<and>
   (2::int) \<le> 2 \<and> (0::real) < 1 / 2 \<and> (1 / 2 :: real) \<le> 1 \<and> Gamma_tab (2 - 1 / 2) \<noteq> 0 \<and>
   (\<exists>x D. linspace01 2 = Inr x \<and>
      build_kernel_matrices Gamma_tab x (1 / 2) (- 3) = Inr (kernel_matrix x x (- 3), D)) \<and>
   2 \<le> length [0, 0 :: real] \<and> last [0, 0 :: real] = hd [0, 0] \<and>
   solve_lssvr_bratu Gamma_tab (fsolve_returning 1 ''ok'') (0, 1) (1 / 2) 1 (- 1) (- 3) (Some [0, 0]) =
     Inl NonFinite"
proof -
  have f: "fsolve_returning 1 ''ok'' (\<lambda>a. lssvr_bratu_residual a [[1]] [[0]] 1 1) [0] =
      Inr ([0], 1, ''ok'')"
    by (simp add: fsolve_returning_def lssvr_bratu_residual_def matvec_def ncols_def dot_def)
  have G: "Gamma_tab (2 - 1 / 2) \<noteq> 0" by (simp add: Gamma_tab_def)
  show ?thesis
    using f G
      solve_no_validation [where N = "- 1" and G = Gamma_tab and fs = "fsolve_returning 1 ''ok''"
        and clock = "(0, 1)" and al = "1 / 2" and lam = 1 and gamma = "- 3" and a = "[0]"
        and ier = 1 and msg = "''ok''" and ?t0.0 = 0 and ?t1.0 = 1 and M = 2 and y = "[0, 0]"]
    by simp
qed

end
